theory Spec2Isabelle
  imports Complex_Main
begin

section \<open>The room registry and the per-connection handlers (pages/api/socket.ts)\<close>

text \<open>
  The server keeps one process-wide \<^verbatim>\<open>rooms\<close> map from room name to room state and,
  for every connection, a closure variable \<^verbatim>\<open>roomId\<close> that starts as \<^verbatim>\<open>null\<close>.
  The handlers mutate both and emit messages through socket.io. The embedding passes the
  whole server state explicitly and returns the emitted messages as a list, each with
  the set of sockets that receive it.

  Numbers carried by points and strokes are never inspected by the server; they are
  taken as reals. A JSON payload cannot carry NaN or an infinity.
\<close>

type_synonym sid = string

record NPoint =
  nx :: real
  ny :: real
  t :: real

record Stroke =
  id_stroke :: string
  points :: "NPoint list"
  color :: string
  size_stroke :: real
  owner :: "string option"

record RoomState =
  strokes :: "Stroke list"

text \<open>
  The object sent with a cursor event. The handler spreads all of its fields into the
  relayed object, so a field named \<^verbatim>\<open>id\<close> matters: \<open>c_id\<close> is that field where the payload has
  one. The client sends \<^verbatim>\<open>room\<close>, \<^verbatim>\<open>nx\<close>, \<^verbatim>\<open>ny\<close> and \<^verbatim>\<open>color\<close> and no \<^verbatim>\<open>id\<close>.
\<close>

datatype cursor_payload =
  CursorPayload (c_id: "string option") (c_room: string) (c_nx: real) (c_ny: real)
    (c_color: string)

text \<open>
  The events a connection can deliver together with a payload object, each with the
  fields its handler destructures. The cursor listener takes its parameter whole, so its
  payload may also be missing (\<open>None\<close>). For the other listeners an event that arrives
  without any payload is a \<open>Bare\<close> receipt, defined below.
\<close>

datatype event =
    JoinRoom string
  | Cursor "cursor_payload option"
  | StrokeStart string Stroke
  | StrokeAppend string NPoint
  | StrokeEnd string
  | Clear string
  | Undo string
  | Disconnect

text \<open>
  The messages the server emits. The first argument of a relayed message is the \<^verbatim>\<open>id\<close>
  field of the emitted object.
\<close>

datatype msg =
    StateMsg RoomState
  | UserJoined sid
  | CursorMsg string "cursor_payload option"
  | StrokeStartMsg sid Stroke
  | StrokeAppendMsg sid NPoint
  | StrokeEndMsg sid
  | ClearMsg
  | UndoMsg
  | UserLeft sid

type_synonym emission = "sid set \<times> msg"

text \<open>
  \<open>rooms\<close> is the module-level map. \<open>roomId\<close> holds the closure variable of every
  connection. \<open>members\<close> is the transport's room table (socket.io 4):
  \<^verbatim>\<open>socket.join(room)\<close> adds the socket and nothing in the server ever calls
  \<^verbatim>\<open>socket.leave\<close>, so a socket stays in every room it has entered until it disconnects;
  \<^verbatim>\<open>io.to(room)\<close> addresses every socket in the room. \<open>closed\<close> holds the connections
  that have disconnected; the transport takes a closing socket out of every room and
  delivers no further event from it.
\<close>

record server =
  rooms :: "string \<rightharpoonup> RoomState"
  roomId :: "sid \<Rightarrow> string option"
  members :: "string \<Rightarrow> sid set"
  closed :: "sid set"

text \<open>
  \<^verbatim>\<open>socket.to(room)\<close> addresses the sockets in \<open>room\<close> except those in the room named by
  the sender's own id. The transport puts every socket into the room of its own id when
  it connects, so the sender is always excepted; another socket is excepted too once it
  has entered the room that bears the sender's id.
\<close>

definition to_others :: "server \<Rightarrow> sid \<Rightarrow> string \<Rightarrow> sid set" where
  "to_others sv s room = members sv room - insert s (members sv s)"

text \<open>\<^verbatim>\<open>!roomId\<close>: true for \<^verbatim>\<open>null\<close> and for the empty string.\<close>

fun falsy :: "string option \<Rightarrow> bool" where
  "falsy None = True"
| "falsy (Some r) = (r = [])"

text \<open>\<^verbatim>\<open>rooms.get(room) || { strokes: [] }\<close>\<close>

definition get_or_new :: "server \<Rightarrow> string \<Rightarrow> RoomState" where
  "get_or_new sv room = (case rooms sv room of Some state \<Rightarrow> state | None \<Rightarrow> \<lparr>strokes = []\<rparr>)"

text \<open>\<^verbatim>\<open>roomId = room; socket.join(room); rooms.set(room, state)\<close>, shared by two handlers.\<close>

definition enter :: "sid \<Rightarrow> string \<Rightarrow> RoomState \<Rightarrow> server \<Rightarrow> server" where
  "enter s room state sv =
     sv\<lparr>rooms := (rooms sv)(room \<mapsto> state),
        roomId := (roomId sv)(s := Some room),
        members := (members sv)(room := insert s (members sv room))\<rparr>"

definition join_room :: "sid \<Rightarrow> string \<Rightarrow> server \<Rightarrow> server \<times> emission list" where
  "join_room s room sv =
     (let state = get_or_new sv room;
          sv' = enter s room state sv
      in (sv', [({s}, StateMsg state), (to_others sv' s room, UserJoined s)]))"

text \<open>
  The \<^verbatim>\<open>id\<close> of \<^verbatim>\<open>{ id: socket.id, ...payload }\<close>: the spread comes after \<^verbatim>\<open>id\<close>, so an
  \<^verbatim>\<open>id\<close> field of the payload replaces the sender's. Spreading a missing payload adds
  nothing.
\<close>

definition own_id :: "cursor_payload option \<Rightarrow> string option" where
  "own_id payload = (case payload of None \<Rightarrow> None | Some p \<Rightarrow> c_id p)"

definition relay_id :: "sid \<Rightarrow> cursor_payload option \<Rightarrow> string" where
  "relay_id s payload = (case own_id payload of None \<Rightarrow> s | Some i \<Rightarrow> i)"

definition cursor :: "sid \<Rightarrow> cursor_payload option \<Rightarrow> server \<Rightarrow> server \<times> emission list" where
  "cursor s payload sv =
     (case roomId sv s of
        None \<Rightarrow> (sv, [])
      | Some r \<Rightarrow> if r = [] then (sv, [])
                  else (sv, [(to_others sv s r, CursorMsg (relay_id s payload) payload)]))"

definition stroke_start :: "sid \<Rightarrow> string \<Rightarrow> Stroke \<Rightarrow> server \<Rightarrow> server \<times> emission list" where
  "stroke_start s room stroke sv =
     (let state = get_or_new sv room;
          state' = state\<lparr>strokes := strokes state @ [stroke]\<rparr>;
          sv' = enter s room state' sv
      in (sv', [(to_others sv' s room, StrokeStartMsg s stroke)]))"

text \<open>
  \<^verbatim>\<open>const last = state.strokes[state.strokes.length - 1]; if (last) last.points.push(point)\<close>:
  on an empty array \<^verbatim>\<open>last\<close> is \<^verbatim>\<open>undefined\<close> and nothing is pushed.
\<close>

definition push_last :: "NPoint \<Rightarrow> Stroke list \<Rightarrow> Stroke list" where
  "push_last point xs =
     (if xs = [] then []
      else butlast xs @ [(last xs)\<lparr>points := points (last xs) @ [point]\<rparr>])"

definition stroke_append :: "sid \<Rightarrow> string \<Rightarrow> NPoint \<Rightarrow> server \<Rightarrow> server \<times> emission list" where
  "stroke_append s room point sv =
     (case roomId sv s of
        None \<Rightarrow> (sv, [])
      | Some r \<Rightarrow> if r = [] then (sv, [])
          else (case rooms sv r of
                  None \<Rightarrow> (sv, [])
                | Some state \<Rightarrow>
                    (sv\<lparr>rooms := (rooms sv)(r \<mapsto> state\<lparr>strokes := push_last point (strokes state)\<rparr>)\<rparr>,
                     [(to_others sv s r, StrokeAppendMsg s point)])))"

definition stroke_end :: "sid \<Rightarrow> string \<Rightarrow> server \<Rightarrow> server \<times> emission list" where
  "stroke_end s room sv =
     (case roomId sv s of
        None \<Rightarrow> (sv, [])
      | Some r \<Rightarrow> if r = [] then (sv, [])
                  else (sv, [(to_others sv s r, StrokeEndMsg s)]))"

definition clear :: "sid \<Rightarrow> string \<Rightarrow> server \<Rightarrow> server \<times> emission list" where
  "clear s room sv =
     (case roomId sv s of
        None \<Rightarrow> (sv, [])
      | Some r \<Rightarrow> if r = [] then (sv, [])
          else ((case rooms sv r of
                   None \<Rightarrow> sv
                 | Some state \<Rightarrow> sv\<lparr>rooms := (rooms sv)(r \<mapsto> state\<lparr>strokes := []\<rparr>)\<rparr>),
                [(members sv r, ClearMsg)]))"

text \<open>\<^verbatim>\<open>state.strokes.pop()\<close> drops the last element and does nothing on an empty array.\<close>

definition undo :: "sid \<Rightarrow> string \<Rightarrow> server \<Rightarrow> server \<times> emission list" where
  "undo s room sv =
     (case roomId sv s of
        None \<Rightarrow> (sv, [])
      | Some r \<Rightarrow> if r = [] then (sv, [])
          else (case rooms sv r of
                  None \<Rightarrow> (sv, [])
                | Some state \<Rightarrow>
                    (sv\<lparr>rooms := (rooms sv)(r \<mapsto> state\<lparr>strokes := butlast (strokes state)\<rparr>)\<rparr>,
                     [(members sv r, UndoMsg)])))"

text \<open>
  The transport has taken the socket out of its rooms when the \<^verbatim>\<open>disconnect\<close> handler
  runs; the handler itself only notifies the others.
\<close>

definition disconnect :: "sid \<Rightarrow> server \<Rightarrow> server \<times> emission list" where
  "disconnect s sv =
     (let sv' = sv\<lparr>members := (\<lambda>room. members sv room - {s}), closed := insert s (closed sv)\<rparr>
      in (case roomId sv s of
            None \<Rightarrow> (sv', [])
          | Some r \<Rightarrow> if r = [] then (sv', [])
                      else (sv', [(to_others sv' s r, UserLeft s)])))"

fun handle :: "sid \<Rightarrow> event \<Rightarrow> server \<Rightarrow> server \<times> emission list" where
  "handle s (JoinRoom room) sv = join_room s room sv"
| "handle s (Cursor payload) sv = cursor s payload sv"
| "handle s (StrokeStart room stroke) sv = stroke_start s room stroke sv"
| "handle s (StrokeAppend room point) sv = stroke_append s room point sv"
| "handle s (StrokeEnd room) sv = stroke_end s room sv"
| "handle s (Clear room) sv = clear s room sv"
| "handle s (Undo room) sv = undo s room sv"
| "handle s Disconnect sv = disconnect s sv"

text \<open>
  What a listener is called with. Six listeners destructure their parameter in the
  parameter list (\<^verbatim>\<open>({ room }) =>\<close>, \<^verbatim>\<open>({ room, stroke }) =>\<close>, \<^verbatim>\<open>({ room, point }) =>\<close>): called
  without a payload (\<^verbatim>\<open>undefined\<close> or \<^verbatim>\<open>null\<close>) they throw a TypeError before the first
  statement of the body, the \<^verbatim>\<open>roomId\<close> guard included. Called with a payload they run the
  body. The handlers have no other throwing statement.
\<close>

datatype error = TypeError

datatype listener =
  on_join_room | on_stroke_start | on_stroke_append | on_stroke_end | on_clear | on_undo

datatype receipt = Carrying event | Bare listener

fun receive :: "sid \<Rightarrow> receipt \<Rightarrow> server \<Rightarrow> error + server \<times> emission list" where
  "receive s (Carrying ev) sv = Inr (handle s ev sv)"
| "receive s (Bare l) sv = Inl TypeError"

text \<open>One delivered event; a closed connection delivers nothing.\<close>

definition deliver :: "server \<Rightarrow> sid \<times> event \<Rightarrow> server \<times> emission list" where
  "deliver sv e = (if fst e \<in> closed sv then (sv, []) else handle (fst e) (snd e) sv)"

fun run :: "server \<Rightarrow> (sid \<times> event) list \<Rightarrow> server" where
  "run sv [] = sv"
| "run sv (e # es) = run (fst (deliver sv e)) es"

text \<open>
  A freshly started server: no room state, no connection has joined anything. The
  transport's membership table is a parameter (socket.io puts every socket into a room
  of its own name).
\<close>

definition init :: "(string \<Rightarrow> sid set) \<Rightarrow> server" where
  "init M = \<lparr>rooms = Map.empty, roomId = (\<lambda>_. None), members = M, closed = {}\<rparr>"

text \<open>The strokes the registry holds for a room; a room without state has none.\<close>

definition strokes_of :: "server \<Rightarrow> string \<Rightarrow> Stroke list" where
  "strokes_of sv room = (case rooms sv room of None \<Rightarrow> [] | Some state \<Rightarrow> strokes state)"

text \<open>The messages of a list of emissions that reach socket \<open>s\<close>, in order.\<close>

definition received :: "sid \<Rightarrow> emission list \<Rightarrow> msg list" where
  "received s out = map snd (filter (\<lambda>e. s \<in> fst e) out)"

text \<open>
  What every state reached from a fresh server satisfies: a live connection whose
  \<^verbatim>\<open>roomId\<close> is set has been put into that room by \<^verbatim>\<open>socket.join\<close>, and the room has an
  entry in \<^verbatim>\<open>rooms\<close> (entries are never deleted).
\<close>

definition wf :: "server \<Rightarrow> bool" where
  "wf sv = (\<forall>s r. s \<notin> closed sv \<longrightarrow> roomId sv s = Some r \<longrightarrow>
              rooms sv r \<noteq> None \<and> s \<in> members sv r)"

section \<open>The heuristic shape scorer (hooks/useShapeAI.ts)\<close>

text \<open>
  A JavaScript number is modelled as NaN or a finite value, the finite value taken as the
  real it denotes: rounding, overflow and the infinities are left out. A position that an
  array does not have reads as \<^verbatim>\<open>undefined\<close>, which every arithmetic operator and
  comparison of \<^verbatim>\<open>predict\<close> turns into NaN.
\<close>

datatype number = NaN | Num real

fun lift1 :: "(real \<Rightarrow> real) \<Rightarrow> number \<Rightarrow> number" where
  "lift1 f (Num x) = Num (f x)"
| "lift1 f NaN = NaN"

text \<open>Binary operators and \<^verbatim>\<open>Math.max\<close>, \<^verbatim>\<open>Math.min\<close>: NaN as soon as one operand is NaN.\<close>

fun lift2 :: "(real \<Rightarrow> real \<Rightarrow> real) \<Rightarrow> number \<Rightarrow> number \<Rightarrow> number" where
  "lift2 f (Num x) (Num y) = Num (f x y)"
| "lift2 f _ _ = NaN"

text \<open>Comparisons are false as soon as one operand is NaN.\<close>

fun num_ge :: "number \<Rightarrow> number \<Rightarrow> bool" where
  "num_ge (Num x) (Num y) = (x \<ge> y)"
| "num_ge _ _ = False"

fun num_le :: "number \<Rightarrow> number \<Rightarrow> bool" where
  "num_le (Num x) (Num y) = (x \<le> y)"
| "num_le _ _ = False"

fun num_gt :: "number \<Rightarrow> number \<Rightarrow> bool" where
  "num_gt (Num x) (Num y) = (x > y)"
| "num_gt _ _ = False"

text \<open>\<^verbatim>\<open>const [corners, circ, ar, sym, lengthNorm] = features\<close>, one position at a time.\<close>

definition element :: "number list \<Rightarrow> nat \<Rightarrow> number" where
  "element xs i = (if i < length xs then xs ! i else NaN)"

definition clamp01 :: "number \<Rightarrow> number" where
  "clamp01 x = lift2 max (Num 0) (lift2 min (Num 1) x)"

text \<open>\<^verbatim>\<open>scale || 1\<close>: 1 when \<^verbatim>\<open>scale\<close> is 0 or NaN.\<close>

definition or_1 :: "number \<Rightarrow> number" where
  "or_1 scale = (if scale = NaN \<or> scale = Num 0 then Num 1 else scale)"

text \<open>
  \<^verbatim>\<open>clamp01(Math.exp(-Math.pow((v - target) / (scale || 1), 2)))\<close>. No divisor in
  \<^verbatim>\<open>predict\<close> is zero: they are the literals 8, 6 and 10 and the result of \<open>or_1\<close>.
\<close>

definition closeness :: "number \<Rightarrow> number \<Rightarrow> number \<Rightarrow> number" where
  "closeness v target scale =
     clamp01 (lift1 exp (lift1 uminus (lift1 (\<lambda>x. x ^ 2)
       (lift2 (/) (lift2 (-) v target) (or_1 scale)))))"

record HeuristicPrediction =
  label :: string
  score :: number

text \<open>The record \<^verbatim>\<open>s\<close> after the six assignments, in the key order of \<^verbatim>\<open>Object.keys(s)\<close>.\<close>

definition scores :: "number list \<Rightarrow> HeuristicPrediction list" where
  "scores features =
     (let corners = element features 0; circ = element features 1;
          ar = element features 2; sym = element features 3
      in [\<lparr>label = ''circle'', score =
             clamp01 (lift2 (*) circ (lift2 (-) (Num 1) (lift2 (/) corners (Num 8))))\<rparr>,
          \<lparr>label = ''rectangle'', score =
             lift2 (*) (closeness corners (Num 4) (Num 4)) (closeness ar (Num 1) (Num 0.6))\<rparr>,
          \<lparr>label = ''triangle'', score = closeness corners (Num 3) (Num 3.5)\<rparr>,
          \<lparr>label = ''star'', score =
             clamp01 (lift2 (*)
               (lift2 (/) (lift2 max (Num 0) (lift2 (-) corners (Num 6))) (Num 6))
               (lift2 (-) (Num 1) (lift2 (*) circ (Num 0.5))))\<rparr>,
          \<lparr>label = ''heart'', score =
             clamp01 (lift2 (*)
               (lift2 (*) sym (lift2 (-) (Num 1) (lift1 abs (lift2 (-) ar (Num 1)))))
               (if num_ge corners (Num 2) \<and> num_le corners (Num 6) then Num 1 else Num 0.3))\<rparr>,
          \<lparr>label = ''cloud'', score =
             clamp01 (lift2 (*) circ (lift2 min (lift2 (/) corners (Num 10)) (Num 1)))\<rparr>])"

text \<open>The comparator \<^verbatim>\<open>(a, b) => b.score - a.score\<close>.\<close>

definition compare :: "HeuristicPrediction \<Rightarrow> HeuristicPrediction \<Rightarrow> number" where
  "compare a b = lift2 (-) (score b) (score a)"

text \<open>
  \<^verbatim>\<open>Array.prototype.sort\<close> is stable and reads a NaN from the comparator as 0. It is
  modelled as a stable insertion sort: \<open>a\<close>, which stood before the elements of the list,
  moves behind \<open>b\<close> only when the comparator is positive. Where the comparator is
  consistent every stable sort gives this order; with NaN among finite scores the
  comparator is not consistent and the language leaves the order to the engine.
\<close>

fun insert_sorted :: "HeuristicPrediction \<Rightarrow> HeuristicPrediction list \<Rightarrow> HeuristicPrediction list" where
  "insert_sorted a [] = [a]"
| "insert_sorted a (b # bs) =
     (if num_gt (compare a b) (Num 0) then b # insert_sorted a bs else a # b # bs)"

definition sort_by_score :: "HeuristicPrediction list \<Rightarrow> HeuristicPrediction list" where
  "sort_by_score xs = foldr insert_sorted xs []"

text \<open>
  \<^verbatim>\<open>.slice(0, e)\<close> for an integer \<open>e\<close>: a negative end counts from the end of the array.
\<close>

definition slice0 :: "'a list \<Rightarrow> int \<Rightarrow> 'a list" where
  "slice0 xs e =
     (let len = int (length xs);
          final = (if e < 0 then max (len + e) 0 else min e len)
      in take (nat final) xs)"

text \<open>\<^verbatim>\<open>predict(features, topK)\<close> with the count given by the caller (it defaults to 6).\<close>

definition predict :: "number list \<Rightarrow> int \<Rightarrow> HeuristicPrediction list" where
  "predict features topK = slice0 (sort_by_score (scores features)) topK"

text \<open>A score in the closed unit interval; NaN is not.\<close>

fun in01 :: "number \<Rightarrow> bool" where
  "in01 (Num x) = (0 \<le> x \<and> x \<le> 1)"
| "in01 NaN = False"

text \<open>Non-increasing scores along the list.\<close>

definition ranked :: "HeuristicPrediction list \<Rightarrow> bool" where
  "ranked xs = sorted_wrt (\<lambda>a b. num_ge (score a) (score b)) xs"

section \<open>Coordinate helpers (components/AutoDraw.tsx)\<close>

text \<open>
  A pixel point and the part of the canvas rectangle the helpers read. The canvas
  argument is \<^verbatim>\<open>HTMLCanvasElement | null\<close>; \<open>None\<close> is \<^verbatim>\<open>null\<close> and \<open>Some rect\<close> a canvas
  whose \<^verbatim>\<open>getBoundingClientRect()\<close> is \<open>rect\<close>.
\<close>

record Point =
  x_p :: real
  y_p :: real
  t_p :: real

record DOMRect =
  width :: real
  height :: real

text \<open>
  The source divides and multiplies doubles. Each arithmetic result is passed through
  \<open>fl\<close>, the rounding of the arithmetic: the identity gives exact arithmetic, and the
  rounding of doubles differs from the exact result by a bounded relative error as long
  as nothing overflows or underflows. With a width or height of zero the source's
  quotient is an infinity or NaN, which a real cannot hold; the facts about these
  functions are stated for positive sizes.
\<close>

definition normalizePoint :: "(real \<Rightarrow> real) \<Rightarrow> Point \<Rightarrow> DOMRect option \<Rightarrow> NPoint" where
  "normalizePoint fl p canvas =
     (case canvas of
        None \<Rightarrow> \<lparr>nx = 0, ny = 0, t = t_p p\<rparr>
      | Some rect \<Rightarrow> \<lparr>nx = fl (x_p p / width rect), ny = fl (y_p p / height rect), t = t_p p\<rparr>)"

definition denormalizePoint :: "(real \<Rightarrow> real) \<Rightarrow> NPoint \<Rightarrow> DOMRect option \<Rightarrow> Point" where
  "denormalizePoint fl p canvas =
     (case canvas of
        None \<Rightarrow> \<lparr>x_p = 0, y_p = 0, t_p = t p\<rparr>
      | Some rect \<Rightarrow> \<lparr>x_p = fl (nx p * width rect), y_p = fl (ny p * height rect), t_p = t p\<rparr>)"

section \<open>Example runs\<close>

definition pt :: "real \<Rightarrow> real \<Rightarrow> NPoint" where
  "pt x y = \<lparr>nx = x, ny = y, t = 0\<rparr>"

definition s1 :: Stroke where
  "s1 = \<lparr>id_stroke = ''s1'', points = [pt 0.1 0.1], color = ''#111827'', size_stroke = 4,
         owner = Some ''A''\<rparr>"

definition s2 :: Stroke where
  "s2 = \<lparr>id_stroke = ''s2'', points = [pt 0.8 0.8], color = ''#2563eb'', size_stroke = 4,
         owner = Some ''B''\<rparr>"

text \<open>Nobody connected yet.\<close>

definition fresh :: server where
  "fresh = init (\<lambda>_. {})"

text \<open>Session A has joined room R1 and drawn nothing.\<close>

definition joined_empty :: server where
  "joined_empty = run fresh [(''A'', JoinRoom ''R1'')]"

text \<open>Session A has joined room R1 and started stroke s1.\<close>

definition one_stroke :: server where
  "one_stroke = run fresh [(''A'', JoinRoom ''R1''), (''A'', StrokeStart ''R1'' s1)]"

text \<open>Sessions A and B are both in room R1; A has started s1, then B has started s2.\<close>

definition two_open_events :: "(sid \<times> event) list" where
  "two_open_events =
     [(''A'', JoinRoom ''R1''), (''B'', JoinRoom ''R1''),
      (''A'', StrokeStart ''R1'' s1), (''B'', StrokeStart ''R1'' s2)]"

definition two_open :: server where
  "two_open = run fresh two_open_events"

text \<open>Session A draws one stroke of two points in room R1 and lifts the pen.\<close>

definition one_gesture :: "(sid \<times> event) list" where
  "one_gesture =
     [(''A'', StrokeStart ''R1'' s1), (''A'', StrokeAppend ''R1'' (pt 0.2 0.2)),
      (''A'', StrokeEnd ''R1'')]"



text \<open>The cursor payload the client builds, and one that carries an id of its own.\<close>

definition plain_cursor :: cursor_payload where
  "plain_cursor = CursorPayload None ''R1'' 0.5 0.5 ''#111827''"


text \<open>A canvas of 800 by 600 pixels and a point on it.\<close>

definition canvas800 :: DOMRect where
  "canvas800 = \<lparr>width = 800, height = 600\<rparr>"

definition sample_point :: Point where
  "sample_point = \<lparr>x_p = 120, y_p = 45, t_p = 1000\<rparr>"

section \<open>Facts about the handlers\<close>

lemmas handler_defs = join_room_def cursor_def stroke_start_def stroke_append_def
  stroke_end_def clear_def undo_def disconnect_def enter_def get_or_new_def Let_def

lemma push_last_snoc: "push_last p (xs @ [l]) = xs @ [l\<lparr>points := points l @ [p]\<rparr>]"
  by (simp add: push_last_def)

lemma length_push_last: "length (push_last p xs) = length xs"
  by (simp add: push_last_def)

lemma not_in_to_others: "s \<notin> to_others sv s room"
  by (simp add: to_others_def)

lemma RoomState_update: "(state :: RoomState)\<lparr>strokes := xs\<rparr> = \<lparr>strokes = xs\<rparr>"
  by (cases state) simp

lemma same_state_upd: "rooms sv r = Some state \<Longrightarrow> sv\<lparr>rooms := (rooms sv)(r \<mapsto> state)\<rparr> = sv"
  by (simp add: fun_upd_idem)

text \<open>The invariant holds at the start and every handler keeps it.\<close>

lemma wf_init: "wf (init M)"
  by (simp add: wf_def init_def)

lemma wf_handle: "wf sv \<Longrightarrow> wf (fst (handle s ev sv))"
  by (cases ev) (auto simp: wf_def handler_defs split: option.splits if_splits)

lemma wf_deliver: "wf sv \<Longrightarrow> wf (fst (deliver sv e))"
  by (simp add: deliver_def wf_handle)

lemma wf_run: "wf sv \<Longrightarrow> wf (run sv es)"
  by (induction es arbitrary: sv) (simp_all add: wf_deliver)

lemma wf_reachable: "wf (run (init M) es)"
  by (simp add: wf_run wf_init)

text \<open>What an append does to a room that has state: the point goes to the last stroke.\<close>

lemma stroke_append_last:
  assumes "roomId sv s = Some r" and "r \<noteq> []" and "rooms sv r = Some state"
  shows "strokes_of (fst (stroke_append s room point sv)) r = push_last point (strokes state)"
  using assms by (simp add: stroke_append_def strokes_of_def)

text \<open>The example states, evaluated.\<close>

lemma joined_empty_eval:
  "roomId joined_empty ''A'' = Some ''R1''" "strokes_of joined_empty ''R1'' = []"
  by (simp_all add: joined_empty_def fresh_def init_def deliver_def handler_defs strokes_of_def)

lemma one_stroke_eval:
  "strokes_of one_stroke ''R1'' = [s1]"
  by (simp add: one_stroke_def fresh_def init_def deliver_def handler_defs strokes_of_def)

lemma two_open_eval:
  "roomId two_open ''A'' = Some ''R1''"
  "roomId two_open ''B'' = Some ''R1''"
  "strokes_of two_open ''R1'' = [s1, s2]"
  "members two_open ''R1'' = {''A'', ''B''}"
  "closed two_open = {}"
  by (auto simp: two_open_def two_open_events_def fresh_def init_def deliver_def handler_defs
      strokes_of_def)

lemma two_open_rooms: "rooms two_open ''R1'' = Some \<lparr>strokes = [s1, s2]\<rparr>"
  by (simp add: two_open_def two_open_events_def fresh_def init_def deliver_def handler_defs)

section \<open>Append routing\<close>

text \<open>
  C1. With two open strokes of different sessions in one room, an append must extend the
  sender's own stroke and no other. In the run below A starts s1, B starts s2, and A then
  appends a point: the handler pushes it onto s2, the last stroke of the room, and s1
  keeps its single point.
\<close>

theorem append_extends_last_stroke_of_room:
  "map points (strokes_of (fst (deliver two_open (''A'', StrokeAppend ''R1'' (pt 0.2 0.2)))) ''R1'')
     = [[pt 0.1 0.1], [pt 0.8 0.8, pt 0.2 0.2]]
   \<and> map owner (strokes_of two_open ''R1'') = [Some ''A'', Some ''B'']"
  by (simp add: deliver_def two_open_eval two_open_rooms stroke_append_def strokes_of_def
      push_last_def s1_def s2_def)

section \<open>Starting a stroke\<close>

text \<open>
  C2 as stated fails: a stroke whose id is already present is pushed a second time.
\<close>

theorem stroke_start_duplicate_counterexample:
  "id_stroke s1 \<in> set (map id_stroke (strokes_of one_stroke ''R1''))
   \<and> strokes_of (fst (handle ''A'' (StrokeStart ''R1'' s1) one_stroke)) ''R1'' = [s1, s1]
   \<and> fst (handle ''A'' (StrokeStart ''R1'' s1) one_stroke) \<noteq> one_stroke"
proof -
  have a: "strokes_of (fst (handle ''A'' (StrokeStart ''R1'' s1) one_stroke)) ''R1'' = [s1, s1]"
    using one_stroke_eval
    by (simp add: stroke_start_def enter_def get_or_new_def strokes_of_def Let_def
        split: option.splits)
  then have "fst (handle ''A'' (StrokeStart ''R1'' s1) one_stroke) \<noteq> one_stroke"
    using one_stroke_eval by auto
  with a show ?thesis by (simp add: one_stroke_eval)
qed

text \<open>
  C2, amended. Every stroke_start appends the stroke to the end of the strokes of the room
  named in the payload, whether or not a stroke with the same id is already there, and
  leaves the state of every other room as it was.
\<close>

theorem stroke_start_always_appends:
  "strokes_of (fst (handle s (StrokeStart room stroke) sv)) room = strokes_of sv room @ [stroke]
   \<and> (\<forall>r. r \<noteq> room \<longrightarrow> rooms (fst (handle s (StrokeStart room stroke) sv)) r = rooms sv r)"
  by (simp add: stroke_start_def enter_def get_or_new_def strokes_of_def Let_def
      split: option.splits)

theorem stroke_start_always_appends_witness:
  "strokes_of (fst (handle ''B'' (StrokeStart ''R1'' s2) one_stroke)) ''R1'' = [s1, s2]
   \<and> rooms (fst (handle ''B'' (StrokeStart ''R1'' s2) one_stroke)) ''R2'' = rooms one_stroke ''R2''"
  using stroke_start_always_appends [of "''B''" "''R1''" s2 one_stroke]
  by (simp add: one_stroke_eval)

section \<open>Joining\<close>

text \<open>
  C3. After any sequence of events on a fresh server, a joining client receives exactly
  one message, the snapshot; the snapshot is the state the registry holds for the room,
  its strokes are those the room had before the join, and the join changes the strokes of
  no room.
\<close>

theorem join_snapshot_fidelity:
  assumes "sv = run (init M) evs"
  shows "\<exists>state. received s (snd (handle s (JoinRoom room) sv)) = [StateMsg state]
           \<and> rooms (fst (handle s (JoinRoom room) sv)) room = Some state
           \<and> strokes state = strokes_of sv room
           \<and> (\<forall>r. strokes_of (fst (handle s (JoinRoom room) sv)) r = strokes_of sv r)"
  by (simp add: join_room_def enter_def get_or_new_def strokes_of_def Let_def received_def
      not_in_to_others split: option.splits)

theorem join_snapshot_fidelity_witness:
  "\<exists>state. received ''C'' (snd (handle ''C'' (JoinRoom ''R1'') (run (init (\<lambda>_. {})) one_gesture)))
              = [StateMsg state]
         \<and> rooms (fst (handle ''C'' (JoinRoom ''R1'') (run (init (\<lambda>_. {})) one_gesture))) ''R1''
              = Some state
         \<and> map points (strokes state) = [[pt 0.1 0.1, pt 0.2 0.2]]"
proof -
  have e: "strokes_of (run (init (\<lambda>_. {})) one_gesture) ''R1''
             = [s1\<lparr>points := [pt 0.1 0.1, pt 0.2 0.2]\<rparr>]"
    by (simp add: one_gesture_def init_def deliver_def handler_defs strokes_of_def
        push_last_def s1_def)
  from join_snapshot_fidelity [OF refl, of "''C''" "''R1''" "\<lambda>_. {}" one_gesture]
  show ?thesis unfolding e by auto
qed


section \<open>Undo and clear\<close>

text \<open>
  C4. For a session whose current room is \<open>r\<close>: when the strokes of \<open>r\<close> end in a stroke
  \<open>x\<close>, whoever owns it, undo leaves exactly the strokes before \<open>x\<close>; when \<open>r\<close> has no
  strokes, undo leaves the whole server state as it was. No other room changes.
\<close>

theorem undo_removes_last:
  assumes "roomId sv s = Some r" and "r \<noteq> []"
  shows "(strokes_of sv r = xs @ [x] \<longrightarrow> strokes_of (fst (handle s (Undo room) sv)) r = xs)
       \<and> (strokes_of sv r = [] \<longrightarrow> fst (handle s (Undo room) sv) = sv)
       \<and> (\<forall>r'. r' \<noteq> r \<longrightarrow> rooms (fst (handle s (Undo room) sv)) r' = rooms sv r')"
  using assms
  by (auto simp: undo_def strokes_of_def same_state_upd split: option.splits)

theorem undo_removes_last_witness:
  "roomId two_open ''A'' = Some ''R1'' \<and> strokes_of two_open ''R1'' = [s1] @ [s2]
   \<and> owner s2 = Some ''B''
   \<and> strokes_of (fst (handle ''A'' (Undo ''R1'') two_open)) ''R1'' = [s1]"
proof -
  have h: "roomId two_open ''A'' = Some ''R1''" "''R1'' \<noteq> []"
    by (simp_all add: two_open_eval)
  have e: "strokes_of two_open ''R1'' = [s1] @ [s2]"
    by (simp add: two_open_eval)
  from undo_removes_last [OF h, of "[s1]" s2 "''R1''"] e
  have "strokes_of (fst (handle ''A'' (Undo ''R1'') two_open)) ''R1'' = [s1]"
    by blast
  with h e show ?thesis by (simp add: s2_def)
qed

text \<open>
  C5. For a session whose current room is \<open>r\<close>: when \<open>r\<close> has no strokes, undo and clear
  each return the server state unchanged; clear always leaves \<open>r\<close> without strokes. The
  bodies of both handlers have no failing statement.
\<close>

theorem undo_clear_on_empty:
  assumes "roomId sv s = Some r" and "r \<noteq> []"
  shows "(strokes_of sv r = [] \<longrightarrow>
            fst (handle s (Undo room) sv) = sv \<and> fst (handle s (Clear room) sv) = sv)
       \<and> strokes_of (fst (handle s (Clear room) sv)) r = []"
  using assms
  by (auto simp: undo_def clear_def strokes_of_def same_state_upd split: option.splits)

theorem undo_clear_on_empty_witness:
  "strokes_of joined_empty ''R1'' = []
   \<and> fst (handle ''A'' (Undo ''R1'') joined_empty) = joined_empty
   \<and> fst (handle ''A'' (Clear ''R1'') joined_empty) = joined_empty
   \<and> strokes_of two_open ''R1'' = [s1, s2]
   \<and> strokes_of (fst (handle ''A'' (Clear ''R1'') two_open)) ''R1'' = []"
proof -
  have h: "roomId joined_empty ''A'' = Some ''R1''" "''R1'' \<noteq> []"
    by (simp_all add: joined_empty_eval)
  have h2: "roomId two_open ''A'' = Some ''R1''"
    by (simp add: two_open_eval)
  from undo_clear_on_empty [OF h, of "''R1''"] undo_clear_on_empty [OF h2 h(2), of "''R1''"]
  show ?thesis by (simp add: joined_empty_eval two_open_eval)
qed

section \<open>Fan-out\<close>



lemma two_open_members_A: "members two_open ''A'' = {}"
  by (simp add: two_open_def two_open_events_def fresh_def init_def deliver_def handler_defs)






section \<open>Sessions without a room\<close>

text \<open>
  C7 as stated fails. The listeners of stroke_append, stroke_end, undo and clear
  destructure their parameter before the \<^verbatim>\<open>roomId\<close> guard: when such an event arrives
  without a payload at a session that has joined nothing, a TypeError is thrown.
\<close>

theorem unjoined_bare_counterexample:
  "falsy (roomId fresh ''A'')
   \<and> receive ''A'' (Bare on_undo) fresh = Inl TypeError
   \<and> receive ''A'' (Bare on_clear) fresh = Inl TypeError
   \<and> receive ''A'' (Bare on_stroke_append) fresh = Inl TypeError
   \<and> receive ''A'' (Bare on_stroke_end) fresh = Inl TypeError"
  by (simp add: fresh_def init_def)

text \<open>
  C7, amended. For a session that has joined no room (its \<^verbatim>\<open>roomId\<close> is still \<^verbatim>\<open>null\<close>, or
  is the empty string): a cursor, with any payload or none, and a stroke_append,
  stroke_end, undo or clear that carries a payload raise no error, return the server
  state unchanged (the state of every room and the set of closed connections included)
  and emit nothing.
\<close>

theorem unjoined_noop:
  assumes "falsy (roomId sv s)"
  shows "receive s (Carrying (Cursor payload)) sv = Inr (sv, [])
       \<and> receive s (Carrying (StrokeAppend room point)) sv = Inr (sv, [])
       \<and> receive s (Carrying (StrokeEnd room)) sv = Inr (sv, [])
       \<and> receive s (Carrying (Undo room)) sv = Inr (sv, [])
       \<and> receive s (Carrying (Clear room)) sv = Inr (sv, [])"
  using assms
  by (cases "roomId sv s")
     (simp_all add: cursor_def stroke_append_def stroke_end_def undo_def clear_def)

theorem unjoined_noop_witness:
  "roomId one_stroke ''B'' = None
   \<and> receive ''B'' (Carrying (Cursor (Some plain_cursor))) one_stroke = Inr (one_stroke, [])
   \<and> receive ''B'' (Carrying (Cursor None)) one_stroke = Inr (one_stroke, [])
   \<and> receive ''B'' (Carrying (StrokeAppend ''R1'' (pt 0.2 0.2))) one_stroke = Inr (one_stroke, [])
   \<and> receive ''B'' (Carrying (StrokeEnd ''R1'')) one_stroke = Inr (one_stroke, [])
   \<and> receive ''B'' (Carrying (Undo ''R1'')) one_stroke = Inr (one_stroke, [])
   \<and> receive ''B'' (Carrying (Clear ''R1'')) one_stroke = Inr (one_stroke, [])"
proof -
  have n: "roomId one_stroke ''B'' = None"
    by (simp add: one_stroke_def fresh_def init_def deliver_def handler_defs)
  then have h: "falsy (roomId one_stroke ''B'')" by simp
  from unjoined_noop [OF h, of "Some plain_cursor"] unjoined_noop [OF h, of None] n
  show ?thesis by simp
qed

section \<open>The room named in a payload\<close>

text \<open>
  C10. In a state reached from a fresh server, for a live session \<open>s\<close> whose current room
  is \<open>a\<close>, whatever room the payload names: stroke_append pushes the point onto the last
  stroke of \<open>a\<close> and relays to the others in \<open>a\<close>; stroke_end changes nothing and relays
  to the others in \<open>a\<close>; undo drops the last stroke of \<open>a\<close> and clear all strokes of \<open>a\<close>,
  each telling all of \<open>a\<close>. The state of every other room, the room named in the payload
  included, stays as it was. join_room and stroke_start set the sender's current room to
  the room they name; no other event changes any session's current room.
\<close>

theorem payload_room_ignored:
  assumes "sv = run (init M) evs" and "s \<notin> closed sv"
    and "roomId sv s = Some a" and "a \<noteq> []"
  shows "deliver sv (s, StrokeAppend room point)
           = (sv\<lparr>rooms := (rooms sv)(a \<mapsto> \<lparr>strokes = push_last point (strokes_of sv a)\<rparr>)\<rparr>,
              [(to_others sv s a, StrokeAppendMsg s point)])
       \<and> deliver sv (s, StrokeEnd room) = (sv, [(to_others sv s a, StrokeEndMsg s)])
       \<and> deliver sv (s, Undo room)
           = (sv\<lparr>rooms := (rooms sv)(a \<mapsto> \<lparr>strokes = butlast (strokes_of sv a)\<rparr>)\<rparr>,
              [(members sv a, UndoMsg)])
       \<and> deliver sv (s, Clear room)
           = (sv\<lparr>rooms := (rooms sv)(a \<mapsto> \<lparr>strokes = []\<rparr>)\<rparr>, [(members sv a, ClearMsg)])
       \<and> (room \<noteq> a \<longrightarrow>
            rooms (fst (deliver sv (s, StrokeAppend room point))) room = rooms sv room
          \<and> rooms (fst (deliver sv (s, Undo room))) room = rooms sv room
          \<and> rooms (fst (deliver sv (s, Clear room))) room = rooms sv room)
       \<and> roomId (fst (deliver sv (s, JoinRoom room))) = (roomId sv)(s := Some room)
       \<and> roomId (fst (deliver sv (s, StrokeStart room stroke))) = (roomId sv)(s := Some room)
       \<and> (\<forall>s' ev. (case ev of JoinRoom _ \<Rightarrow> True | StrokeStart _ _ \<Rightarrow> True
                      | _ \<Rightarrow> roomId (fst (deliver sv (s', ev))) = roomId sv))"
proof -
  have w: "wf sv" using assms(1) by (simp add: wf_reachable)
  then obtain state where st: "rooms sv a = Some state"
    using assms(2) assms(3) by (auto simp: wf_def)
  then have so: "strokes_of sv a = strokes state"
    by (simp add: strokes_of_def)
  have d: "deliver sv (s, ev) = handle s ev sv" for ev
    using assms(2) by (simp add: deliver_def)
  have kept: "\<forall>s' ev. (case ev of JoinRoom _ \<Rightarrow> True | StrokeStart _ _ \<Rightarrow> True
                      | _ \<Rightarrow> roomId (fst (deliver sv (s', ev))) = roomId sv)"
    by (auto simp: deliver_def handler_defs split: event.splits option.splits)
  have app: "handle s (StrokeAppend room point) sv
           = (sv\<lparr>rooms := (rooms sv)(a \<mapsto> \<lparr>strokes = push_last point (strokes_of sv a)\<rparr>)\<rparr>,
              [(to_others sv s a, StrokeAppendMsg s point)])"
    using assms(3) assms(4) st by (simp add: stroke_append_def so RoomState_update)
  have en: "handle s (StrokeEnd room) sv = (sv, [(to_others sv s a, StrokeEndMsg s)])"
    using assms(3) assms(4) by (simp add: stroke_end_def)
  have un: "handle s (Undo room) sv
           = (sv\<lparr>rooms := (rooms sv)(a \<mapsto> \<lparr>strokes = butlast (strokes_of sv a)\<rparr>)\<rparr>,
              [(members sv a, UndoMsg)])"
    using assms(3) assms(4) st by (simp add: undo_def so RoomState_update)
  have cl: "handle s (Clear room) sv
           = (sv\<lparr>rooms := (rooms sv)(a \<mapsto> \<lparr>strokes = []\<rparr>)\<rparr>, [(members sv a, ClearMsg)])"
    using assms(3) assms(4) st by (simp add: clear_def RoomState_update)
  have jo: "roomId (fst (handle s (JoinRoom room) sv)) = (roomId sv)(s := Some room)"
    by (simp add: join_room_def enter_def Let_def)
  have ss: "roomId (fst (handle s (StrokeStart room stroke) sv)) = (roomId sv)(s := Some room)"
    by (simp add: stroke_start_def enter_def Let_def)
  show ?thesis
    unfolding d using kept [unfolded d] app en un cl jo ss
    by (simp add: kept)
qed

theorem payload_room_ignored_witness:
  "roomId two_open ''A'' = Some ''R1''
   \<and> strokes_of (fst (deliver two_open (''A'', StrokeAppend ''R2'' (pt 0.2 0.2)))) ''R1''
       = [s1, s2\<lparr>points := [pt 0.8 0.8, pt 0.2 0.2]\<rparr>]
   \<and> snd (deliver two_open (''A'', StrokeAppend ''R2'' (pt 0.2 0.2)))
       = [({''B''}, StrokeAppendMsg ''A'' (pt 0.2 0.2))]
   \<and> deliver two_open (''A'', StrokeEnd ''R2'') = (two_open, [({''B''}, StrokeEndMsg ''A'')])
   \<and> strokes_of (fst (deliver two_open (''A'', Undo ''R2''))) ''R1'' = [s1]
   \<and> snd (deliver two_open (''A'', Undo ''R2'')) = [({''A'', ''B''}, UndoMsg)]
   \<and> strokes_of (fst (deliver two_open (''A'', Clear ''R2''))) ''R1'' = []
   \<and> snd (deliver two_open (''A'', Clear ''R2'')) = [({''A'', ''B''}, ClearMsg)]
   \<and> rooms (fst (deliver two_open (''A'', Undo ''R2''))) ''R2'' = rooms two_open ''R2''
   \<and> roomId (fst (deliver two_open (''A'', JoinRoom ''R2''))) ''A'' = Some ''R2''"
proof -
  have h1: "two_open = run (init (\<lambda>_. {})) two_open_events"
    by (simp add: two_open_def fresh_def)
  have h2: "''A'' \<notin> closed two_open" "roomId two_open ''A'' = Some ''R1''" "''R1'' \<noteq> []"
    by (simp_all add: two_open_eval)
  have m: "to_others two_open ''A'' ''R1'' = {''B''}"
    by (auto simp: to_others_def two_open_eval two_open_members_A)
  have ne: "''R2'' \<noteq> ''R1''" by simp
  note p = payload_room_ignored [OF h1 h2, of "''R2''" "pt 0.2 0.2" s1]
  from p have app: "deliver two_open (''A'', StrokeAppend ''R2'' (pt 0.2 0.2))
      = (two_open\<lparr>rooms := (rooms two_open)(''R1'' \<mapsto>
            \<lparr>strokes = push_last (pt 0.2 0.2) (strokes_of two_open ''R1'')\<rparr>)\<rparr>,
         [(to_others two_open ''A'' ''R1'', StrokeAppendMsg ''A'' (pt 0.2 0.2))])"
    by blast
  from p have en: "deliver two_open (''A'', StrokeEnd ''R2'')
      = (two_open, [(to_others two_open ''A'' ''R1'', StrokeEndMsg ''A'')])"
    by blast
  from p have un: "deliver two_open (''A'', Undo ''R2'')
      = (two_open\<lparr>rooms := (rooms two_open)(''R1'' \<mapsto>
            \<lparr>strokes = butlast (strokes_of two_open ''R1'')\<rparr>)\<rparr>,
         [(members two_open ''R1'', UndoMsg)])"
    by blast
  from p have cl: "deliver two_open (''A'', Clear ''R2'')
      = (two_open\<lparr>rooms := (rooms two_open)(''R1'' \<mapsto> \<lparr>strokes = []\<rparr>)\<rparr>,
         [(members two_open ''R1'', ClearMsg)])"
    by blast
  from p ne have other: "rooms (fst (deliver two_open (''A'', Undo ''R2''))) ''R2''
      = rooms two_open ''R2''"
    by blast
  from p have "roomId (fst (deliver two_open (''A'', JoinRoom ''R2'')))
      = (roomId two_open)(''A'' := Some ''R2'')"
    by blast
  then have jo: "roomId (fst (deliver two_open (''A'', JoinRoom ''R2''))) ''A'' = Some ''R2''"
    by simp
  show ?thesis
    unfolding app en un cl using other jo
    by (simp add: m two_open_eval two_open_rooms strokes_of_def push_last_def s1_def s2_def)
qed

section \<open>Normalising and denormalising a point\<close>

lemma round_trip_bound:
  fixes fl :: "real \<Rightarrow> real"
  assumes e: "0 \<le> eps" and r: "\<forall>v. \<bar>fl v - v\<bar> \<le> eps * \<bar>v\<bar>" and w: "0 < w"
  shows "\<bar>fl (fl (v / w) * w) - v\<bar> \<le> (2 * eps + eps\<^sup>2) * \<bar>v\<bar>"
proof -
  let ?a = "fl (v / w)"
  have a: "\<bar>?a - v / w\<bar> \<le> eps * \<bar>v / w\<bar>" using r by blast
  have "?a * w - v = (?a - v / w) * w" using w by (simp add: field_simps)
  then have "\<bar>?a * w - v\<bar> = \<bar>?a - v / w\<bar> * w" using w by (simp add: abs_mult)
  also have "\<dots> \<le> (eps * \<bar>v / w\<bar>) * w" using a w by (intro mult_right_mono) auto
  also have "\<dots> = eps * \<bar>v\<bar>" using w by simp
  finally have aw: "\<bar>?a * w - v\<bar> \<le> eps * \<bar>v\<bar>" .
  have "\<bar>?a * w\<bar> \<le> \<bar>?a * w - v\<bar> + \<bar>v\<bar>" by simp
  with aw have big: "\<bar>?a * w\<bar> \<le> (1 + eps) * \<bar>v\<bar>" by (simp add: algebra_simps)
  have "\<bar>fl (?a * w) - ?a * w\<bar> \<le> eps * \<bar>?a * w\<bar>" using r by blast
  also have "\<dots> \<le> eps * ((1 + eps) * \<bar>v\<bar>)" using big e by (simp add: mult_left_mono)
  finally have b: "\<bar>fl (?a * w) - ?a * w\<bar> \<le> eps * ((1 + eps) * \<bar>v\<bar>)" .
  have "\<bar>fl (?a * w) - v\<bar> \<le> \<bar>fl (?a * w) - ?a * w\<bar> + \<bar>?a * w - v\<bar>" by simp
  with b aw have "\<bar>fl (?a * w) - v\<bar> \<le> eps * ((1 + eps) * \<bar>v\<bar>) + eps * \<bar>v\<bar>" by simp
  also have "\<dots> = (2 * eps + eps\<^sup>2) * \<bar>v\<bar>" by (simp add: algebra_simps power2_eq_square)
  finally show ?thesis .
qed

text \<open>
  C8. For every pixel point and every canvas rectangle of positive width and height,
  normalising and then denormalising gives back the timestamp unchanged and, in exact
  arithmetic, the point itself. When every arithmetic result is rounded with a relative
  error of at most \<open>eps\<close>, as doubles are, each coordinate comes back within the relative
  error \<open>2 * eps + eps\<^sup>2\<close> of the original.
\<close>

theorem normalize_round_trip:
  assumes "0 \<le> eps" and "\<forall>v. \<bar>fl v - v\<bar> \<le> eps * \<bar>v\<bar>"
    and "0 < width rect" and "0 < height rect"
  shows "\<bar>x_p (denormalizePoint fl (normalizePoint fl p (Some rect)) (Some rect)) - x_p p\<bar>
           \<le> (2 * eps + eps\<^sup>2) * \<bar>x_p p\<bar>
       \<and> \<bar>y_p (denormalizePoint fl (normalizePoint fl p (Some rect)) (Some rect)) - y_p p\<bar>
           \<le> (2 * eps + eps\<^sup>2) * \<bar>y_p p\<bar>
       \<and> t_p (denormalizePoint fl (normalizePoint fl p (Some rect)) (Some rect)) = t_p p
       \<and> denormalizePoint (\<lambda>v. v) (normalizePoint (\<lambda>v. v) p (Some rect)) (Some rect) = p"
proof -
  have x: "\<bar>fl (fl (x_p p / width rect) * width rect) - x_p p\<bar>
             \<le> (2 * eps + eps\<^sup>2) * \<bar>x_p p\<bar>"
    using assms(1) assms(2) assms(3) by (rule round_trip_bound)
  have y: "\<bar>fl (fl (y_p p / height rect) * height rect) - y_p p\<bar>
             \<le> (2 * eps + eps\<^sup>2) * \<bar>y_p p\<bar>"
    using assms(1) assms(2) assms(4) by (rule round_trip_bound)
  show ?thesis
    using x y assms(3) assms(4) by (simp add: normalizePoint_def denormalizePoint_def)
qed

theorem normalize_round_trip_witness:
  "normalizePoint (\<lambda>v. v) sample_point (Some canvas800) = \<lparr>nx = 0.15, ny = 0.075, t = 1000\<rparr>
   \<and> denormalizePoint (\<lambda>v. v) (normalizePoint (\<lambda>v. v) sample_point (Some canvas800))
        (Some canvas800) = sample_point
   \<and> \<bar>x_p (denormalizePoint (\<lambda>v. v * 1.001)
              (normalizePoint (\<lambda>v. v * 1.001) sample_point (Some canvas800)) (Some canvas800))
        - 120\<bar> \<le> 0.002001 * 120"
proof -
  have e: "(0::real) \<le> 0.001" by simp
  have r: "\<forall>v::real. \<bar>v * 1.001 - v\<bar> \<le> 0.001 * \<bar>v\<bar>"
  proof
    fix v :: real
    have "v * 1.001 - v = 0.001 * v" by simp
    then show "\<bar>v * 1.001 - v\<bar> \<le> 0.001 * \<bar>v\<bar>" by (simp add: abs_mult)
  qed
  have w: "0 < width canvas800" "0 < height canvas800"
    by (simp_all add: canvas800_def)
  note n = normalize_round_trip [OF e r w, of sample_point]
  from n have exact: "denormalizePoint (\<lambda>v. v) (normalizePoint (\<lambda>v. v) sample_point
      (Some canvas800)) (Some canvas800) = sample_point"
    by blast
  from n have "\<bar>x_p (denormalizePoint (\<lambda>v. v * 1.001)
              (normalizePoint (\<lambda>v. v * 1.001) sample_point (Some canvas800)) (Some canvas800))
        - x_p sample_point\<bar> \<le> (2 * 0.001 + 0.001\<^sup>2) * \<bar>x_p sample_point\<bar>"
    by blast
  then have bound: "\<bar>x_p (denormalizePoint (\<lambda>v. v * 1.001)
              (normalizePoint (\<lambda>v. v * 1.001) sample_point (Some canvas800)) (Some canvas800))
        - 120\<bar> \<le> 0.002001 * 120"
    by (simp add: sample_point_def power2_eq_square)
  have val: "normalizePoint (\<lambda>v. v) sample_point (Some canvas800)
      = \<lparr>nx = 0.15, ny = 0.075, t = 1000\<rparr>"
    by (simp add: normalizePoint_def sample_point_def canvas800_def)
  from val exact bound show ?thesis by blast
qed

section \<open>The shape scorer\<close>

lemma clamp01_in01: "x \<noteq> NaN \<Longrightarrow> in01 (clamp01 x)"
  by (cases x) (auto simp: clamp01_def)

lemma closeness_in01:
  "v \<noteq> NaN \<Longrightarrow> target \<noteq> NaN \<Longrightarrow> in01 (closeness v target scale)"
  by (cases v; cases target; cases "or_1 scale")
     (auto simp: closeness_def clamp01_def or_1_def split: if_splits)

lemma in01_mult: "in01 a \<Longrightarrow> in01 b \<Longrightarrow> in01 (lift2 (*) a b)"
  by (cases a; cases b) (auto simp: mult_le_one)

lemma length_scores: "length (scores features) = 6"
  by (simp add: scores_def Let_def)

lemma scores_in01:
  assumes "\<forall>i \<in> {0, 1, 2, 3}. element features i \<noteq> NaN"
  shows "\<forall>p \<in> set (scores features). in01 (score p)"
proof -
  obtain c ci a sy where e: "element features 0 = Num c" "element features 1 = Num ci"
      "element features 2 = Num a" "element features 3 = Num sy"
    using assms by (metis insertI1 insertI2 number.exhaust)
  show ?thesis
    by (simp add: scores_def e e(2)[unfolded One_nat_def] Let_def clamp01_in01
        closeness_in01 in01_mult)
qed

lemma set_insert_sorted: "set (insert_sorted a bs) = insert a (set bs)"
  by (induction bs) auto

lemma set_sort_by_score: "set (sort_by_score xs) = set xs"
  by (induction xs) (auto simp: sort_by_score_def set_insert_sorted)

lemma length_insert_sorted: "length (insert_sorted a bs) = Suc (length bs)"
  by (induction bs) auto

lemma length_sort_by_score: "length (sort_by_score xs) = length xs"
  by (induction xs) (auto simp: sort_by_score_def length_insert_sorted)

text \<open>The sort is stable and puts the larger score first.\<close>

lemma sort_by_score_example:
  "map label (sort_by_score [\<lparr>label = ''a'', score = Num 0.2\<rparr>, \<lparr>label = ''b'', score = Num 0.9\<rparr>,
      \<lparr>label = ''c'', score = Num 0.2\<rparr>]) = [''b'', ''a'', ''c'']"
  by (simp add: sort_by_score_def compare_def)

text \<open>Inserting into a ranked list of finite scores keeps it ranked.\<close>

lemma ranked_insert_sorted:
  assumes "ranked bs" and "in01 (score a)" and "\<forall>b \<in> set bs. in01 (score b)"
  shows "ranked (insert_sorted a bs)"
  using assms
proof (induction bs)
  case Nil
  then show ?case by (simp add: ranked_def)
next
  case (Cons b bs)
  obtain x where x: "score a = Num x" using Cons.prems(2) by (cases "score a") auto
  obtain y where y: "score b = Num y" using Cons.prems(3) by (cases "score b") auto
  have rb: "ranked bs" using Cons.prems(1) by (simp add: ranked_def)
  have below_b: "\<forall>c \<in> set bs. num_ge (score b) (score c)"
    using Cons.prems(1) by (simp add: ranked_def)
  show ?case
  proof (cases "num_gt (compare a b) (Num 0)")
    case True
    then have "y > x" by (simp add: compare_def x y)
    moreover have "ranked (insert_sorted a bs)"
      using Cons.IH rb Cons.prems by simp
    ultimately show ?thesis
      using True below_b by (auto simp: ranked_def set_insert_sorted x y)
  next
    case False
    then have xy: "x \<ge> y" by (simp add: compare_def x y)
    have "\<forall>c \<in> set bs. num_ge (score a) (score c)"
    proof
      fix c assume "c \<in> set bs"
      then have "num_ge (score b) (score c)" using below_b by blast
      then show "num_ge (score a) (score c)"
        using xy by (cases "score c") (auto simp: x y)
    qed
    then show ?thesis
      using False Cons.prems(1) xy by (auto simp: ranked_def x y)
  qed
qed

lemma ranked_sort_by_score:
  "\<forall>b \<in> set xs. in01 (score b) \<Longrightarrow> ranked (sort_by_score xs)"
proof (induction xs)
  case Nil
  then show ?case by (simp add: sort_by_score_def ranked_def)
next
  case (Cons a xs)
  have "ranked (insert_sorted a (sort_by_score xs))"
    using Cons by (intro ranked_insert_sorted) (auto simp: set_sort_by_score)
  then show ?case by (simp add: sort_by_score_def)
qed

lemma ranked_take: "ranked xs \<Longrightarrow> ranked (take n xs)"
  unfolding ranked_def by (metis append_take_drop_id sorted_wrt_append)

text \<open>
  C9 as stated fails. On the empty feature vector every position reads as
  \<^verbatim>\<open>undefined\<close>, every score is NaN, and \<^verbatim>\<open>clamp01\<close> passes NaN through; NaN does not lie
  in the unit interval. With the count \<open>- 1\<close> the slice drops the last entry only and
  five entries come back.
\<close>

theorem predict_nan_counterexample:
  "map score (predict [] 6) = [NaN, NaN, NaN, NaN, NaN, NaN] \<and> \<not> in01 NaN
   \<and> length (predict [Num 4, Num 0.5, Num 1, Num 0.8, Num 2] (- 1)) = 5"
  by (simp add: predict_def slice0_def sort_by_score_def scores_def element_def clamp01_def
      closeness_def compare_def length_sort_by_score [unfolded sort_by_score_def] Let_def)

text \<open>
  C9, amended. For every feature vector whose first four entries (corners, circularity,
  aspect ratio, symmetry) are present and finite, and every count \<open>topK \<ge> 0\<close>: the
  result of \<^verbatim>\<open>predict\<close> is a function of its two arguments alone, has non-increasing
  scores, has \<open>min topK 6\<close> entries (so at most \<open>topK\<close>), each with a score in the unit
  interval, and is the first \<open>topK\<close> entries of the full ranking.
\<close>

theorem predict_ranked:
  assumes "\<forall>i \<in> {0, 1, 2, 3}. element features i \<noteq> NaN" and "0 \<le> topK"
  shows "(features' = features \<and> topK' = topK \<longrightarrow> predict features' topK' = predict features topK)
       \<and> ranked (predict features topK)
       \<and> int (length (predict features topK)) = min topK 6
       \<and> (\<forall>p \<in> set (predict features topK). in01 (score p))
       \<and> predict features topK = take (nat topK) (predict features 6)"
proof -
  have s01: "\<forall>p \<in> set (sort_by_score (scores features)). in01 (score p)"
    using scores_in01 [OF assms(1)] by (simp add: set_sort_by_score)
  have r: "ranked (sort_by_score (scores features))"
    using scores_in01 [OF assms(1)] by (rule ranked_sort_by_score)
  have len: "length (sort_by_score (scores features)) = 6"
    by (simp add: length_sort_by_score length_scores)
  have p: "predict features topK = take (nat (min topK 6)) (sort_by_score (scores features))"
    using assms(2) by (simp add: predict_def slice0_def len Let_def)
  have p6: "predict features 6 = sort_by_score (scores features)"
    by (simp add: predict_def slice0_def len Let_def)
  have "ranked (predict features topK)" by (simp add: p ranked_take r)
  moreover have "int (length (predict features topK)) = min topK 6"
    using assms(2) by (simp add: p len)
  moreover have "\<forall>p \<in> set (predict features topK). in01 (score p)"
    using s01 by (auto simp: p dest: in_set_takeD)
  moreover have "predict features topK = take (nat topK) (predict features 6)"
    using assms(2) by (simp add: p p6 len min_def)
  ultimately show ?thesis by blast
qed

theorem predict_ranked_witness:
  "element [Num 4, Num 0.5, Num 1, Num 0.8, Num 2] 3 = Num 0.8
   \<and> ranked (predict [Num 4, Num 0.5, Num 1, Num 0.8, Num 2] 3)
   \<and> length (predict [Num 4, Num 0.5, Num 1, Num 0.8, Num 2] 3) = 3
   \<and> list_all (\<lambda>p. in01 (score p)) (predict [Num 4, Num 0.5, Num 1, Num 0.8, Num 2] 3)"
proof -
  have h: "\<forall>i \<in> {0, 1, 2, 3}. element [Num 4, Num 0.5, Num 1, Num 0.8, Num 2] i \<noteq> NaN"
    by (simp add: element_def)
  have k: "(0::int) \<le> 3" by simp
  have e: "element [Num 4, Num 0.5, Num 1, Num 0.8, Num 2] 3 = Num 0.8"
    by (simp add: element_def)
  note p = predict_ranked [OF h k]
  from p have r: "ranked (predict [Num 4, Num 0.5, Num 1, Num 0.8, Num 2] 3)"
    by blast
  from p have "int (length (predict [Num 4, Num 0.5, Num 1, Num 0.8, Num 2] 3)) = min 3 6"
    by blast
  then have l: "length (predict [Num 4, Num 0.5, Num 1, Num 0.8, Num 2] 3) = 3"
    by simp
  from p have "\<forall>p \<in> set (predict [Num 4, Num 0.5, Num 1, Num 0.8, Num 2] 3). in01 (score p)"
    by blast
  then have a: "list_all (\<lambda>p. in01 (score p)) (predict [Num 4, Num 0.5, Num 1, Num 0.8, Num 2] 3)"
    by (simp only: list_all_iff)
  from e r l a show ?thesis by blast
qed

end
